theory Spec2Isabelle
  imports
    Complex_Main
    "HOL-Library.Char_ord"
    "HOL-Library.List_Lexorder"
    "HOL-Library.Product_Lexorder"
    "HOL-Library.Sublist"
    "HOL-Library.Multiset"
begin

section \<open>The sales dashboard: data model\<close>

text \<open>
  The repository holds two Streamlit scripts, \<^verbatim>\<open>app.py\<close> and \<^verbatim>\<open>app_updated.py\<close>. Both read
  a CSV file with pandas, filter the table with sidebar widgets, and show sums and grouped
  sums of the filtered table.

  Conventions of the embedding:
  \<^item> an int64 value is an \<^typ>\<open>int\<close>, and int64 arithmetic wraps modulo \<open>2 ^ 64\<close>;
  \<^item> a float64 value is the \<^typ>\<open>rat\<close> it denotes (infinities and NaN results are left
    out). How float64 arithmetic rounds, in which order a column is summed, and how
    \<^verbatim>\<open>sort_values\<close> orders equal values are the library's: they are parameters of the
    embedding (the record \<open>library\<close> below), and no result fixes them;
  \<^item> a calendar date (a pandas Timestamp at midnight, a \<^verbatim>\<open>datetime.date\<close> of the date
    widget) is the triple (year, month, day), ordered lexicographically;
  \<^item> a CSV file is the table \<^verbatim>\<open>pd.read_csv\<close> recovers from it: the column names and the
    rows of cells. Tokenising, quoting and the syntax of number literals belong to pandas.
\<close>

type_synonym date = "nat \<times> nat \<times> nat"

datatype cell =
    NA                \<comment> \<open>a missing value (NaN)\<close>
  | IntC int          \<comment> \<open>an int64 cell\<close>
  | FloatC rat        \<comment> \<open>a float64 cell\<close>
  | Txt string        \<comment> \<open>a text cell\<close>
  | Ts date           \<comment> \<open>a Timestamp, made by \<^verbatim>\<open>pd.to_datetime\<close>\<close>
  | NaT               \<comment> \<open>the missing Timestamp\<close>

text \<open>A row gives the cell under each column name; under a name that is not a column of
  the frame it is \<^const>\<open>NA\<close>.\<close>

record frame =
  columns :: "string list"
  rows :: "(string \<Rightarrow> cell) list"

datatype error =
    KeyError string      \<comment> \<open>\<^verbatim>\<open>data['name']\<close> on a frame without that column\<close>
  | ValueError           \<comment> \<open>\<^verbatim>\<open>pd.to_datetime\<close>: the text does not match the format\<close>
  | TypeError            \<comment> \<open>a product of two cells that Python cannot multiply\<close>
  | MissingColumns       \<comment> \<open>\<^verbatim>\<open>st.error("The dataset is missing required columns."); st.stop()\<close>\<close>
  | OutsideDataModel     \<comment> \<open>a loaded frame whose columns do not have the types of a transaction\<close>

text \<open>A number of a numeric column: an int64 or a float64 value.\<close>

datatype num = I int | F rat

fun num_value :: "num \<Rightarrow> rat" where
  "num_value (I n) = of_int n"
| "num_value (F x) = x"




text \<open>What the embedding takes from numpy and pandas as given:
  the float64 product, the conversion of an int64 to float64, the sum of a float64 column
  (\<^verbatim>\<open>Series.sum\<close>), the sum of a float64 group (\<^verbatim>\<open>groupby(...).sum()\<close>), and
  \<^verbatim>\<open>Series.sort_values(ascending=False)\<close> on the entries of a grouped sum.\<close>

record library =
  fmul :: "rat \<Rightarrow> rat \<Rightarrow> rat"
  itof :: "int \<Rightarrow> rat"
  series_fsum :: "rat list \<Rightarrow> rat"
  group_fsum :: "rat list \<Rightarrow> rat"
  sort_values :: "(string \<times> num) list \<Rightarrow> (string \<times> num) list"

text \<open>int64 arithmetic: the result modulo \<open>2 ^ 64\<close>, read as a signed value.\<close>

definition wrap64 :: "int \<Rightarrow> int" where
  "wrap64 n = (n + 2 ^ 63) mod 2 ^ 64 - 2 ^ 63"


text \<open>A number as float64.\<close>

fun to_f :: "library \<Rightarrow> num \<Rightarrow> rat" where
  "to_f lib (I n) = itof lib n"
| "to_f lib (F x) = x"

text \<open>The product of two numbers: int64 times int64 is int64 and wraps; with a float64
  on either side the other side is converted and the product is float64.\<close>

fun mul_num :: "library \<Rightarrow> num \<Rightarrow> num \<Rightarrow> num" where
  "mul_num lib (I a) (I b) = I (wrap64 (a * b))"
| "mul_num lib a b = F (fmul lib (to_f lib a) (to_f lib b))"


text \<open>A transaction: one row of the loaded table, with the columns the scripts read.\<close>

record transaction =
  Date :: date
  Price :: num
  Quantity :: num
  Country :: string
  ProductName :: string
  Sales :: num

section \<open>Dates: \<^verbatim>\<open>pd.to_datetime(..., format='%m/%d/%Y')\<close> and the ISO text of \<^verbatim>\<open>to_csv\<close>\<close>

definition is_digit :: "char \<Rightarrow> bool" where
  "is_digit c = (c \<in> set ''0123456789'')"

definition digit_val :: "char \<Rightarrow> nat" where
  "digit_val c = of_char c - 48"

definition nat_of_digits :: "string \<Rightarrow> nat" where
  "nat_of_digits s = fold (\<lambda>c n. 10 * n + digit_val c) s 0"

fun split_on :: "char \<Rightarrow> string \<Rightarrow> string list" where
  "split_on sep [] = [[]]"
| "split_on sep (c # cs) =
     (if c = sep then [] # split_on sep cs
      else (case split_on sep cs of [] \<Rightarrow> [[c]] | w # ws \<Rightarrow> (c # w) # ws))"

text \<open>The directives of the format, as the regular expressions of pandas' strptime:
  \<^verbatim>\<open>%m\<close> is \<^verbatim>\<open>1[0-2]|0[1-9]|[1-9]\<close>, \<^verbatim>\<open>%d\<close> is \<^verbatim>\<open>3[0-1]|[1-2]\d|0[1-9]|[1-9]| [1-9]\<close>,
  \<^verbatim>\<open>%Y\<close> is \<^verbatim>\<open>\d\d\d\d\<close>; the whole text has to match.\<close>

definition match_m :: "string \<Rightarrow> nat option" where
  "match_m s =
     (if (length s = 1 \<or> length s = 2) \<and> list_all is_digit s
         \<and> 1 \<le> nat_of_digits s \<and> nat_of_digits s \<le> 12
      then Some (nat_of_digits s) else None)"

definition match_d :: "string \<Rightarrow> nat option" where
  "match_d s =
     (if (length s = 1 \<or> length s = 2) \<and> list_all is_digit s
         \<and> 1 \<le> nat_of_digits s \<and> nat_of_digits s \<le> 31
      then Some (nat_of_digits s)
      else if length s = 2 \<and> hd s = CHR '' '' \<and> is_digit (s ! 1) \<and> s ! 1 \<noteq> CHR ''0''
      then Some (digit_val (s ! 1))
      else None)"

definition match_Y :: "string \<Rightarrow> nat option" where
  "match_Y s = (if length s = 4 \<and> list_all is_digit s then Some (nat_of_digits s) else None)"

definition is_leap :: "nat \<Rightarrow> bool" where
  "is_leap y = (y mod 4 = 0 \<and> (y mod 100 \<noteq> 0 \<or> y mod 400 = 0))"

definition days_in_month :: "nat \<Rightarrow> nat \<Rightarrow> nat" where
  "days_in_month y m =
     (if m = 2 then (if is_leap y then 29 else 28)
      else if m = 4 \<or> m = 6 \<or> m = 9 \<or> m = 11 then 30 else 31)"

text \<open>A Timestamp has nanosecond resolution: midnight of a day is representable from
  1677-09-22 to 2262-04-11, and a date outside raises (a subclass of) ValueError.\<close>

definition in_bounds :: "date \<Rightarrow> bool" where
  "in_bounds d = ((1677, 9, 22) \<le> d \<and> d \<le> (2262, 4, 11))"

definition strptime :: "string \<Rightarrow> date option" where
  "strptime s =
     (case split_on CHR ''/'' s of
        [ms, ds, ys] \<Rightarrow>
          (case (match_m ms, match_d ds, match_Y ys) of
             (Some m, Some d, Some y) \<Rightarrow>
               if d \<le> days_in_month y m \<and> in_bounds (y, m, d) then Some (y, m, d) else None
           | _ \<Rightarrow> None)
      | _ \<Rightarrow> None)"

definition nat_strings :: "string list" where
  "nat_strings = [''NaT'', ''nat'', ''NAT'', ''nan'', ''NaN'', ''NAN'']"

text \<open>One cell of the Date column under \<^verbatim>\<open>pd.to_datetime\<close>. A number is read through its
  text, which has no \<^verbatim>\<open>/\<close> and matches nothing.\<close>

fun to_datetime :: "cell \<Rightarrow> error + cell" where
  "to_datetime (Txt s) =
     (if s \<in> set nat_strings then Inr NaT
      else (case strptime s of None \<Rightarrow> Inl ValueError | Some d \<Rightarrow> Inr (Ts d)))"
| "to_datetime NA = Inr NaT"
| "to_datetime NaT = Inr NaT"
| "to_datetime (Ts d) = Inr (Ts d)"
| "to_datetime (IntC n) = Inl ValueError"
| "to_datetime (FloatC x) = Inl ValueError"

text \<open>\<^verbatim>\<open>to_csv\<close> writes a column of midnight Timestamps as \<^verbatim>\<open>YYYY-MM-DD\<close>.\<close>

definition digit_char :: "nat \<Rightarrow> char" where
  "digit_char n = char_of (48 + n mod 10)"

fun digits :: "nat \<Rightarrow> nat \<Rightarrow> string" where
  "digits 0 n = []"
| "digits (Suc k) n = digits k (n div 10) @ [digit_char n]"

definition isoformat :: "date \<Rightarrow> string" where
  "isoformat d =
     (case d of (y, m, dd) \<Rightarrow> digits 4 y @ ''-'' @ digits 2 m @ ''-'' @ digits 2 dd)"

text \<open>Four digits hold every year of a Timestamp.\<close>


section \<open>Loading: \<^verbatim>\<open>load_data\<close>\<close>

definition isna :: "cell \<Rightarrow> bool" where
  "isna c = (c = NA \<or> c = NaT)"

text \<open>\<^verbatim>\<open>data.dropna()\<close>: a row with a missing value in any column goes.\<close>

definition dropna :: "frame \<Rightarrow> frame" where
  "dropna data =
     data\<lparr>rows := filter (\<lambda>r. list_all (\<lambda>c. \<not> isna (r c)) (columns data)) (rows data)\<rparr>"

text \<open>A column operation that raises on one cell raises as a whole.\<close>

fun traverse :: "('a \<Rightarrow> error + 'b) \<Rightarrow> 'a list \<Rightarrow> error + 'b list" where
  "traverse f [] = Inr []"
| "traverse f (x # xs) =
     (case f x of
        Inl e \<Rightarrow> Inl e
      | Inr y \<Rightarrow> (case traverse f xs of Inl e \<Rightarrow> Inl e | Inr ys \<Rightarrow> Inr (y # ys)))"

text \<open>\<^verbatim>\<open>data[name] = values\<close>: the column is replaced where it stands, or added last.\<close>

definition assign :: "string \<Rightarrow> cell list \<Rightarrow> frame \<Rightarrow> frame" where
  "assign name vals data =
     \<lparr>columns = (if name \<in> set (columns data) then columns data else columns data @ [name]),
      rows = map (\<lambda>(r, v). r(name := v)) (zip (rows data) vals)\<rparr>"

fun num_cell :: "num \<Rightarrow> cell" where
  "num_cell (I n) = IntC n"
| "num_cell (F x) = FloatC x"

text \<open>\<^verbatim>\<open>data['Price'] * data['Quantity']\<close>, cell by cell. Numbers multiply as
  \<^const>\<open>mul_num\<close> says; a missing value stays missing; text times an integer is Python's
  repetition of the text; anything else is a TypeError.\<close>

fun mul_cell :: "library \<Rightarrow> cell \<Rightarrow> cell \<Rightarrow> error + cell" where
  "mul_cell lib (IntC a) (IntC b) = Inr (num_cell (mul_num lib (I a) (I b)))"
| "mul_cell lib (IntC a) (FloatC b) = Inr (num_cell (mul_num lib (I a) (F b)))"
| "mul_cell lib (FloatC a) (IntC b) = Inr (num_cell (mul_num lib (F a) (I b)))"
| "mul_cell lib (FloatC a) (FloatC b) = Inr (num_cell (mul_num lib (F a) (F b)))"
| "mul_cell lib (Txt s) (IntC n) = Inr (Txt (concat (replicate (nat n) s)))"
| "mul_cell lib (IntC n) (Txt s) = Inr (Txt (concat (replicate (nat n) s)))"
| "mul_cell lib NA (IntC b) = Inr NA"
| "mul_cell lib NA (FloatC b) = Inr NA"
| "mul_cell lib (IntC a) NA = Inr NA"
| "mul_cell lib (FloatC a) NA = Inr NA"
| "mul_cell lib NA NA = Inr NA"
| "mul_cell lib x y = Inl TypeError"

text \<open>The body both scripts share after \<^verbatim>\<open>dropna\<close>:
  \<^verbatim>\<open>data['Date'] = pd.to_datetime(data['Date'], format='%m/%d/%Y')\<close> and
  \<^verbatim>\<open>data['Sales'] = data['Price'] * data['Quantity']\<close>.\<close>

definition convert_and_derive :: "library \<Rightarrow> frame \<Rightarrow> error + frame" where
  "convert_and_derive lib data =
     (if ''Date'' \<notin> set (columns data) then Inl (KeyError ''Date'')
      else case traverse to_datetime (map (\<lambda>r. r ''Date'') (rows data)) of
        Inl e \<Rightarrow> Inl e
      | Inr ds \<Rightarrow>
          let data = assign ''Date'' ds data in
          if ''Price'' \<notin> set (columns data) then Inl (KeyError ''Price'')
          else if ''Quantity'' \<notin> set (columns data) then Inl (KeyError ''Quantity'')
          else case traverse (\<lambda>r. mul_cell lib (r ''Price'') (r ''Quantity'')) (rows data) of
            Inl e \<Rightarrow> Inl e
          | Inr ss \<Rightarrow> Inr (assign ''Sales'' ss data))"

text \<open>\<^verbatim>\<open>load_data\<close> of \<^verbatim>\<open>app.py\<close> (lines 10 to 15). The file is taken to exist: a file that
  is not found is caught by both scripts, which show an error and stop.\<close>

definition load_data :: "library \<Rightarrow> frame \<Rightarrow> error + frame" where
  "load_data lib file = convert_and_derive lib (dropna file)"

text \<open>\<^verbatim>\<open>load_data\<close> of \<^verbatim>\<open>app_updated.py\<close> (lines 10 to 22), with its check of the
  required columns.\<close>

definition required_columns :: "string list" where
  "required_columns = [''Date'', ''Price'', ''Quantity'', ''Country'', ''ProductName'']"

definition load_data_updated :: "library \<Rightarrow> frame \<Rightarrow> error + frame" where
  "load_data_updated lib file =
     (let data = dropna file in
      if \<not> list_all (\<lambda>col. col \<in> set (columns data)) required_columns
      then Inl MissingColumns
      else convert_and_derive lib data)"

subsection \<open>From the loaded frame to transactions\<close>

text \<open>What follows \<^verbatim>\<open>load_data\<close> in the scripts reads six columns. The first column read
  that is absent is a KeyError: \<^verbatim>\<open>data['Date']\<close> for the date widget, then
  \<^verbatim>\<open>data['Country']\<close> and \<^verbatim>\<open>data['ProductName']\<close> for the two selections. A frame
  whose columns are present but are not a Timestamp, three numbers and two texts is
  outside the data model of a transaction; pandas would go on with such a frame, the
  embedding stops there.\<close>

fun date_of :: "cell \<Rightarrow> date option" where
  "date_of (Ts d) = Some d"
| "date_of c = None"

fun num_of :: "cell \<Rightarrow> num option" where
  "num_of (IntC n) = Some (I n)"
| "num_of (FloatC x) = Some (F x)"
| "num_of c = None"

fun text_of :: "cell \<Rightarrow> string option" where
  "text_of (Txt s) = Some s"
| "text_of c = None"

definition transaction_of :: "(string \<Rightarrow> cell) \<Rightarrow> error + transaction" where
  "transaction_of r =
     (case date_of (r ''Date'') of None \<Rightarrow> Inl OutsideDataModel | Some d \<Rightarrow>
      case num_of (r ''Price'') of None \<Rightarrow> Inl OutsideDataModel | Some p \<Rightarrow>
      case num_of (r ''Quantity'') of None \<Rightarrow> Inl OutsideDataModel | Some q \<Rightarrow>
      case text_of (r ''Country'') of None \<Rightarrow> Inl OutsideDataModel | Some c \<Rightarrow>
      case text_of (r ''ProductName'') of None \<Rightarrow> Inl OutsideDataModel | Some n \<Rightarrow>
      case num_of (r ''Sales'') of None \<Rightarrow> Inl OutsideDataModel | Some s \<Rightarrow>
        Inr \<lparr>Date = d, Price = p, Quantity = q, Country = c, ProductName = n, Sales = s\<rparr>)"

definition first_missing :: "string list \<Rightarrow> frame \<Rightarrow> string option" where
  "first_missing names data = find (\<lambda>c. c \<notin> set (columns data)) names"

definition transactions :: "frame \<Rightarrow> error + transaction list" where
  "transactions data =
     (case first_missing
             [''Date'', ''Country'', ''ProductName'', ''Sales'', ''Quantity'', ''Price''] data of
        Some c \<Rightarrow> Inl (KeyError c)
      | None \<Rightarrow> traverse transaction_of (rows data))"

text \<open>The loaded data of each script, as transactions: \<^verbatim>\<open>data = load_data(data_file)\<close>
  and the reading of its columns.\<close>

definition data_app :: "library \<Rightarrow> frame \<Rightarrow> error + transaction list" where
  "data_app lib file =
     (case load_data lib file of Inl e \<Rightarrow> Inl e | Inr data \<Rightarrow> transactions data)"

definition data_updated :: "library \<Rightarrow> frame \<Rightarrow> error + transaction list" where
  "data_updated lib file =
     (case load_data_updated lib file of Inl e \<Rightarrow> Inl e | Inr data \<Rightarrow> transactions data)"

section \<open>Filtering\<close>

text \<open>The date filter of both scripts (\<^verbatim>\<open>app.py\<close> lines 31 to 34, \<^verbatim>\<open>app_updated.py\<close> lines
  46 to 49). The date widget returns a tuple of zero, one or two dates.\<close>

definition date_filter :: "date list \<Rightarrow> transaction list \<Rightarrow> transaction list" where
  "date_filter date_range data =
     (if length date_range = 2
      then filter (\<lambda>r. date_range ! 0 \<le> Date r \<and> Date r \<le> date_range ! 1) data
      else data)"

text \<open>\<^verbatim>\<open>Series.unique()\<close>: the distinct values in the order of their first appearance.\<close>

definition unique :: "'a list \<Rightarrow> 'a list" where
  "unique xs = rev (remdups (rev xs))"

text \<open>\<^verbatim>\<open>Series.isin(values)\<close>.\<close>

definition isin :: "'a \<Rightarrow> 'a list \<Rightarrow> bool" where
  "isin x values = (x \<in> set values)"

text \<open>\<^verbatim>\<open>app.py\<close>, lines 30 to 38: the two multiselects and the filter on both.\<close>

definition filtered_data_app ::
  "transaction list \<Rightarrow> date list \<Rightarrow> string list \<Rightarrow> string list \<Rightarrow> transaction list" where
  "filtered_data_app data date_range selected_country selected_product =
     (let filtered_data = date_filter date_range data in
      filter (\<lambda>r. isin (Country r) selected_country \<and> isin (ProductName r) selected_product)
        filtered_data)"

text \<open>The default of each multiselect: every value of the column.\<close>

definition default_country :: "transaction list \<Rightarrow> string list" where
  "default_country data = unique (map Country data)"

definition default_product :: "transaction list \<Rightarrow> string list" where
  "default_product data = unique (map ProductName data)"

text \<open>\<^verbatim>\<open>app_updated.py\<close>, lines 45 to 85. A select box offers \<^verbatim>\<open>"All"\<close> and the values of
  the column, and filters unless \<^verbatim>\<open>"All"\<close> is chosen (lines 57 to 58 and 64 to 65).\<close>

definition select_filter ::
  "(transaction \<Rightarrow> string) \<Rightarrow> string \<Rightarrow> transaction list \<Rightarrow> transaction list" where
  "select_filter col selected filtered_data =
     (if selected \<noteq> ''All'' then filter (\<lambda>r. col r = selected) filtered_data
      else filtered_data)"

text \<open>The price slider (lines 74 to 76) gives two floats; a Price column of integers is
  compared as float64.\<close>

definition price_filter ::
  "library \<Rightarrow> rat \<times> rat \<Rightarrow> transaction list \<Rightarrow> transaction list" where
  "price_filter lib price_range filtered_data =
     filter (\<lambda>r. fst price_range \<le> to_f lib (Price r) \<and> to_f lib (Price r) \<le> snd price_range)
       filtered_data"

text \<open>The quantity slider (lines 83 to 85) gives two integers; against a Quantity column
  of floats they are compared as float64.\<close>

fun int_le_num :: "library \<Rightarrow> int \<Rightarrow> num \<Rightarrow> bool" where
  "int_le_num lib k (I n) = (k \<le> n)"
| "int_le_num lib k (F x) = (itof lib k \<le> x)"

fun num_le_int :: "library \<Rightarrow> num \<Rightarrow> int \<Rightarrow> bool" where
  "num_le_int lib (I n) k = (n \<le> k)"
| "num_le_int lib (F x) k = (x \<le> itof lib k)"

definition quantity_filter ::
  "library \<Rightarrow> int \<times> int \<Rightarrow> transaction list \<Rightarrow> transaction list" where
  "quantity_filter lib quantity_range filtered_data =
     filter (\<lambda>r. int_le_num lib (fst quantity_range) (Quantity r)
                \<and> num_le_int lib (Quantity r) (snd quantity_range))
       filtered_data"

definition filtered_data_updated ::
  "library \<Rightarrow> transaction list \<Rightarrow> date list \<Rightarrow> string \<Rightarrow> string \<Rightarrow> rat \<times> rat \<Rightarrow> int \<times> int
     \<Rightarrow> transaction list" where
  "filtered_data_updated lib data date_range selected_country selected_product
       price_range quantity_range =
     (let filtered_data = date_filter date_range data;
          filtered_data = select_filter Country selected_country filtered_data;
          filtered_data = select_filter ProductName selected_product filtered_data;
          filtered_data = price_filter lib price_range filtered_data;
          filtered_data = quantity_filter lib quantity_range filtered_data
      in filtered_data)"







section \<open>Aggregates\<close>











section \<open>Export: \<^verbatim>\<open>convert_to_csv\<close>\<close>

text \<open>The values \<^verbatim>\<open>pd.read_csv\<close> reads as missing.\<close>

definition na_values :: "string list" where
  "na_values =
     ['''', ''#N/A'', ''#N/A N/A'', ''#NA'', ''-1.#IND'', ''-1.#QNAN'', ''-NaN'', ''-nan'',
      ''1.#IND'', ''1.#QNAN'', ''<NA>'', ''N/A'', ''NA'', ''NULL'', ''NaN'', ''None'',
      ''n/a'', ''nan'', ''null'']"

definition text_cell :: "string \<Rightarrow> cell" where
  "text_cell s = (if s \<in> set na_values then NA else Txt s)"

text \<open>\<^verbatim>\<open>df.to_csv(index=False)\<close> of the filtered table, as the file reads back: a header
  and a row for each transaction. The Timestamp is written as ISO text, a number with its
  value and type, a text as it is. Columns of the source file that no computation reads
  are left out of the embedding.\<close>

definition export_row :: "transaction \<Rightarrow> (string \<Rightarrow> cell)" where
  "export_row t =
     (\<lambda>_. NA)
       (''Date'' := Txt (isoformat (Date t)),
        ''Price'' := num_cell (Price t),
        ''Quantity'' := num_cell (Quantity t),
        ''Country'' := text_cell (Country t),
        ''ProductName'' := text_cell (ProductName t),
        ''Sales'' := num_cell (Sales t))"

definition convert_to_csv :: "transaction list \<Rightarrow> frame" where
  "convert_to_csv df =
     \<lparr>columns = [''Date'', ''Price'', ''Quantity'', ''Country'', ''ProductName'', ''Sales''],
      rows = map export_row df\<rparr>"

text \<open>The frame as a table: the header and the cells of each row under it.\<close>

definition table :: "frame \<Rightarrow> string list \<times> cell list list" where
  "table data = (columns data, map (\<lambda>r. map r (columns data)) (rows data))"

section \<open>The two dashboards\<close>





section \<open>Example data\<close>

text \<open>A library for the examples: exact products and sums, and a stable sort. It agrees
  with float64 arithmetic on numbers whose products and sums do not round, as those of
  the examples; the properties below hold for every library.\<close>

definition example_library :: library where
  "example_library =
     \<lparr>fmul = (\<lambda>a b. a * b), itof = of_int, series_fsum = sum_list, group_fsum = sum_list,
      sort_values = (\<lambda>s. rev (sort_key (\<lambda>e. num_value (snd e)) (rev s)))\<rparr>"

text \<open>The two transactions of the example of the specification, as a file and loaded.\<close>

definition widget_row :: "string \<Rightarrow> cell" where
  "widget_row =
     (\<lambda>_. NA)
       (''Date'' := Txt ''1/1/2023'', ''Price'' := FloatC 10, ''Quantity'' := IntC 2,
        ''Country'' := Txt ''US'', ''ProductName'' := Txt ''Widget'')"

definition gadget_row :: "string \<Rightarrow> cell" where
  "gadget_row =
     (\<lambda>_. NA)
       (''Date'' := Txt ''2/1/2023'', ''Price'' := FloatC 5, ''Quantity'' := IntC 4,
        ''Country'' := Txt ''UK'', ''ProductName'' := Txt ''Gadget'')"


definition widget :: transaction where
  "widget =
     \<lparr>Date = (2023, 1, 1), Price = F 10, Quantity = I 2, Country = ''US'',
      ProductName = ''Widget'', Sales = F 20\<rparr>"

definition gadget :: transaction where
  "gadget =
     \<lparr>Date = (2023, 2, 1), Price = F 5, Quantity = I 4, Country = ''UK'',
      ProductName = ''Gadget'', Sales = F 20\<rparr>"

text \<open>The same file without its Country column.\<close>

definition file_without_country :: frame where
  "file_without_country =
     \<lparr>columns = [''Date'', ''Price'', ''Quantity'', ''ProductName''],
      rows = [widget_row(''Country'' := NA), gadget_row(''Country'' := NA)]\<rparr>"





section \<open>Properties of the filters\<close>

lemma set_unique: "set (unique xs) = set xs"
  by (simp add: unique_def)

lemma filter_id_conv: "(\<And>x. x \<in> set xs \<Longrightarrow> P x) \<Longrightarrow> filter P xs = xs"
  by (induction xs) auto

lemma set_date_filter: "set (date_filter dr data) \<subseteq> set data"
  by (auto simp: date_filter_def)


text \<open>Each stage of a filter chain is a \<^const>\<open>filter\<close>, and so is the chain.\<close>

lemma date_filter_as_filter:
  "date_filter dr data =
     filter (\<lambda>r. length dr = 2 \<longrightarrow> dr ! 0 \<le> Date r \<and> Date r \<le> dr ! 1) data"
  by (simp add: date_filter_def)

lemma select_filter_as_filter:
  "select_filter col s xs = filter (\<lambda>r. s \<noteq> ''All'' \<longrightarrow> col r = s) xs"
  by (simp add: select_filter_def)

lemma filtered_data_app_as_filter:
  "\<exists>P. \<forall>data. filtered_data_app data dr sc sp = filter P data"
  unfolding filtered_data_app_def Let_def date_filter_as_filter filter_filter
  by blast

lemma filtered_data_updated_as_filter:
  "\<exists>P. \<forall>data. filtered_data_updated lib data dr c p pr qr = filter P data"
  unfolding filtered_data_updated_def Let_def date_filter_as_filter select_filter_as_filter
    price_filter_def quantity_filter_def filter_filter
  by blast



text \<open>
  \<^bold>\<open>Claim C6.\<close> A date interval with fewer than two endpoints is no date filter: every
  record passes and nothing is raised. With two endpoints a record passes exactly when
  its date lies between them, both ends included.
\<close>

theorem date_range_filter:
  "(length date_range < 2 \<longrightarrow> date_filter date_range data = data) \<and>
   date_filter [start, end] data = filter (\<lambda>r. start \<le> Date r \<and> Date r \<le> end) data \<and>
   (r \<in> set (date_filter [start, end] data)
      \<longleftrightarrow> r \<in> set data \<and> start \<le> Date r \<and> Date r \<le> end)"
  by (auto simp: date_filter_def)

theorem date_range_filter_witness:
  "date_filter [(2023, 1, 15)] [widget, gadget] = [widget, gadget] \<and>
   date_filter [(2023, 1, 1), (2023, 1, 31)] [widget, gadget] = [widget]"
  using date_range_filter
    [of "[(2023, 1, 15)]" "[widget, gadget]" "(2023, 1, 1)" "(2023, 1, 31)" widget]
  by (simp add: widget_def gadget_def)

text \<open>
  \<^bold>\<open>Claim C7.\<close> Filtering is idempotent in both scripts: the same widget state applied to
  an already filtered table gives that table again, the same records in the same order.
\<close>

theorem apply_idempotent:
  "filtered_data_app (filtered_data_app data dr sc sp) dr sc sp
     = filtered_data_app data dr sc sp \<and>
   filtered_data_updated lib (filtered_data_updated lib data dr c p pr qr) dr c p pr qr
     = filtered_data_updated lib data dr c p pr qr"
proof -
  obtain P where P: "\<And>xs. filtered_data_app xs dr sc sp = filter P xs"
    using filtered_data_app_as_filter by blast
  obtain Q where Q: "\<And>xs. filtered_data_updated lib xs dr c p pr qr = filter Q xs"
    using filtered_data_updated_as_filter by blast
  show ?thesis by (simp add: P Q)
qed

text \<open>
  \<^bold>\<open>Claim C1\<close> (as amended). A category filter at its default imposes no restriction: with
  every Country and every ProductName of the data selected (the default of the
  multiselects of \<^verbatim>\<open>app.py\<close>), or with the entry \<^verbatim>\<open>"All"\<close> (the default of the select boxes
  of \<^verbatim>\<open>app_updated.py\<close>), every record that reaches the filter passes. A multiselect that
  is emptied passes no record.
\<close>

theorem category_filter_default:
  "filtered_data_app data date_range (default_country data) (default_product data)
     = date_filter date_range data \<and>
   filtered_data_app data date_range [] selected_product = [] \<and>
   filtered_data_app data date_range selected_country [] = [] \<and>
   select_filter Country ''All'' filtered_data = filtered_data \<and>
   select_filter ProductName ''All'' filtered_data = filtered_data"
proof -
  have "isin (Country r) (default_country data) \<and> isin (ProductName r) (default_product data)"
    if "r \<in> set (date_filter date_range data)" for r
    using that set_date_filter [of date_range data]
    by (auto simp: isin_def default_country_def default_product_def set_unique)
  then have "filtered_data_app data date_range (default_country data) (default_product data)
     = date_filter date_range data"
    unfolding filtered_data_app_def Let_def by (rule filter_id_conv)
  then show ?thesis
    by (simp add: filtered_data_app_def isin_def select_filter_def)
qed

text \<open>The claim as it was stated fails: with no country selected, and every product
  selected, \<^verbatim>\<open>app.py\<close> shows no record of the two.\<close>

theorem category_filter_empty_counterexample:
  "filtered_data_app [widget, gadget] [(2023, 1, 1), (2023, 2, 1)] []
     (default_product [widget, gadget]) = [] \<and>
   filtered_data_app [widget, gadget] [(2023, 1, 1), (2023, 2, 1)]
     (default_country [widget, gadget]) [] = [] \<and>
   widget \<notin> set (filtered_data_app [widget, gadget] [(2023, 1, 1), (2023, 2, 1)] []
     (default_product [widget, gadget]))"
  by (simp add: filtered_data_app_def isin_def)

subsection \<open>The sliders at their defaults\<close>













section \<open>Properties of loading\<close>


lemma traverse_Inl: "traverse f xs = Inl e \<Longrightarrow> \<exists>x \<in> set xs. f x = Inl e"
  by (induction xs) (auto split: sum.splits)











subsection \<open>Where the arithmetic is exact\<close>












subsection \<open>A file without a required column\<close>

text \<open>\<^verbatim>\<open>app_updated.py\<close> stops on every file that lacks a required column; \<^verbatim>\<open>app.py\<close> has
  no such stop, and its \<^verbatim>\<open>load_data\<close> raises only what pandas raises.\<close>

lemma load_data_updated_missing:
  "\<not> set required_columns \<subseteq> set (columns file)
     \<Longrightarrow> load_data_updated lib file = Inl MissingColumns"
  by (auto simp: load_data_updated_def dropna_def list_all_iff)

lemma to_datetime_error: "to_datetime c = Inl e \<Longrightarrow> e = ValueError"
  by (cases c) (auto split: if_splits option.splits)

lemma mul_cell_error: "mul_cell lib a b = Inl e \<Longrightarrow> e = TypeError"
  by (cases a; cases b) auto

lemma load_data_never_missing_columns: "load_data lib file \<noteq> Inl MissingColumns"
proof
  assume "load_data lib file = Inl MissingColumns"
  then consider
    "\<exists>c. to_datetime c = Inl MissingColumns"
    | "\<exists>a b. mul_cell lib a b = Inl MissingColumns"
    by (auto simp: load_data_def convert_and_derive_def Let_def
        split: if_splits sum.splits dest!: traverse_Inl)
  then show False
    by cases (auto dest: to_datetime_error mul_cell_error)
qed

text \<open>
  \<^bold>\<open>Claim C5.\<close> A file that lacks a required column makes loading fail with the
  missing-columns error, before anything is filtered or shown. \<^verbatim>\<open>app_updated.py\<close> does
  so. \<^verbatim>\<open>app.py\<close> does not: on the example file without its Country column its
  \<^verbatim>\<open>load_data\<close> returns the table with Sales added, and the script stops only where it
  reads \<^verbatim>\<open>data['Country']\<close> for the country widget, with a KeyError.
\<close>

theorem load_without_country:
  "map_sum id table (load_data example_library file_without_country)
     = Inr ([''Date'', ''Price'', ''Quantity'', ''ProductName'', ''Sales''],
            [[Ts (2023, 1, 1), FloatC 10, IntC 2, Txt ''Widget'', FloatC 20],
             [Ts (2023, 2, 1), FloatC 5, IntC 4, Txt ''Gadget'', FloatC 20]]) \<and>
   data_app example_library file_without_country = Inl (KeyError ''Country'') \<and>
   map_sum id table (load_data_updated example_library file_without_country)
     = Inl MissingColumns"
  by code_simp

section \<open>Properties of the export\<close>

lemma of_char_digit_char: "of_char (digit_char n) = (48 + n mod 10 :: nat)"
  by (simp add: digit_char_def)

lemma digit_char_not_slash: "digit_char n \<noteq> CHR ''/''"
proof
  assume "digit_char n = CHR ''/''"
  then have "(of_char (digit_char n) :: nat) = of_char CHR ''/''" by simp
  then show False by (simp add: of_char_digit_char)
qed

lemma digits_no_slash: "CHR ''/'' \<notin> set (digits k n)"
  by (induction k n rule: digits.induct) (auto simp: digit_char_not_slash [THEN not_sym])

lemma isoformat_no_slash: "CHR ''/'' \<notin> set (isoformat d)"
  by (cases d) (auto simp: isoformat_def digits_no_slash)

lemma length_digits: "length (digits k n) = k"
  by (induction k n rule: digits.induct) auto

lemma length_isoformat: "length (isoformat d) = 10"
  by (cases d) (simp add: isoformat_def length_digits)

lemma split_on_no_sep: "sep \<notin> set s \<Longrightarrow> split_on sep s = [s]"
  by (induction s) auto

text \<open>The ISO text of a date never matches \<^verbatim>\<open>%m/%d/%Y\<close>.\<close>

lemma strptime_isoformat: "strptime (isoformat d) = None"
  by (simp add: strptime_def split_on_no_sep isoformat_no_slash)

lemma to_datetime_isoformat: "to_datetime (Txt (isoformat d)) = Inl ValueError"
proof -
  have "isoformat d \<notin> set nat_strings"
    using length_isoformat [of d] by (auto simp: nat_strings_def)
  then show ?thesis by (simp add: strptime_isoformat)
qed

lemma isna_num_cell: "\<not> isna (num_cell x)"
  by (cases x) (simp_all add: isna_def)

lemma dropna_convert_to_csv:
  assumes "\<forall>t \<in> set df. Country t \<notin> set na_values \<and> ProductName t \<notin> set na_values"
  shows "dropna (convert_to_csv df) = convert_to_csv df"
proof -
  have "list_all (\<lambda>c. \<not> isna (export_row t c)) (columns (convert_to_csv df))"
    if "t \<in> set df" for t
    using assms that
    by (simp add: convert_to_csv_def export_row_def isna_num_cell text_cell_def)
      (simp add: isna_def)
  then have "filter (\<lambda>r. list_all (\<lambda>c. \<not> isna (r c)) (columns (convert_to_csv df)))
      (rows (convert_to_csv df)) = rows (convert_to_csv df)"
    by (intro filter_id_conv) (auto simp: convert_to_csv_def)
  then show ?thesis by (simp add: dropna_def)
qed

lemma convert_and_derive_export:
  assumes "df \<noteq> []"
  shows "convert_and_derive lib (convert_to_csv df) = Inl ValueError"
proof -
  from assms obtain t ts where df: "df = t # ts" by (cases df) auto
  have "traverse to_datetime (map (\<lambda>r. r ''Date'') (rows (convert_to_csv df)))
      = Inl ValueError"
    by (simp add: df convert_to_csv_def export_row_def to_datetime_isoformat
        del: to_datetime.simps)
  then show ?thesis
    by (simp add: convert_and_derive_def convert_to_csv_def)
qed

lemma load_empty_export:
  "data_app lib (convert_to_csv []) = Inr [] \<and> data_updated lib (convert_to_csv []) = Inr []"
  by (simp add: data_app_def data_updated_def load_data_def load_data_updated_def
      convert_and_derive_def dropna_def convert_to_csv_def assign_def required_columns_def
      transactions_def first_missing_def)

text \<open>
  \<^bold>\<open>Claim C3\<close> (as amended). The exported file has one row for each record of the
  filtered table, with the record's Sales in its Sales field, so the count and the Sales
  sum of the table can be read off the file. Loading the exported file again gives the
  table back only when the table is empty: the Date column is written as
  \<^verbatim>\<open>YYYY-MM-DD\<close>, which the format \<^verbatim>\<open>%m/%d/%Y\<close> of \<^verbatim>\<open>load_data\<close> rejects, so for a table
  that is not empty (and has no text that reads back as a missing value)
  \<^verbatim>\<open>load_data\<close> of either script raises a ValueError.
\<close>

theorem export_then_load:
  "length (rows (convert_to_csv filtered_data)) = length filtered_data \<and>
   map (\<lambda>r. r ''Sales'') (rows (convert_to_csv filtered_data))
     = map (\<lambda>t. num_cell (Sales t)) filtered_data \<and>
   data_app lib (convert_to_csv []) = Inr [] \<and>
   data_updated lib (convert_to_csv []) = Inr [] \<and>
   (filtered_data \<noteq> [] \<and>
    (\<forall>t \<in> set filtered_data.
       Country t \<notin> set na_values \<and> ProductName t \<notin> set na_values) \<longrightarrow>
    load_data lib (convert_to_csv filtered_data) = Inl ValueError \<and>
    load_data_updated lib (convert_to_csv filtered_data) = Inl ValueError)"
proof -
  have a: "length (rows (convert_to_csv filtered_data)) = length filtered_data"
    by (simp add: convert_to_csv_def)
  have b: "map (\<lambda>r. r ''Sales'') (rows (convert_to_csv filtered_data))
     = map (\<lambda>t. num_cell (Sales t)) filtered_data"
    by (simp add: convert_to_csv_def export_row_def)
  have e: "load_data lib (convert_to_csv filtered_data) = Inl ValueError \<and>
    load_data_updated lib (convert_to_csv filtered_data) = Inl ValueError"
    if "filtered_data \<noteq> []"
      and "\<forall>t \<in> set filtered_data.
       Country t \<notin> set na_values \<and> ProductName t \<notin> set na_values"
  proof -
    have "list_all (\<lambda>col. col \<in> set (columns (convert_to_csv filtered_data)))
        required_columns"
      by (simp add: convert_to_csv_def required_columns_def)
    then show ?thesis
      using that
      by (simp add: load_data_def load_data_updated_def dropna_convert_to_csv
          convert_and_derive_export)
  qed
  from a b load_empty_export [of lib] e show ?thesis by blast
qed

theorem export_then_load_witness:
  "Country widget \<notin> set na_values \<and> ProductName widget \<notin> set na_values \<and>
   map_sum id table (load_data example_library (convert_to_csv [widget])) = Inl ValueError \<and>
   map_sum id table (load_data_updated example_library (convert_to_csv [widget]))
     = Inl ValueError"
proof -
  have n: "Country widget \<notin> set na_values \<and> ProductName widget \<notin> set na_values"
    by (simp add: widget_def na_values_def)
  with export_then_load [of "[widget]" example_library] show ?thesis by simp
qed

text \<open>The claim as it was stated fails on the table of one record: the exported file
  does not load again.\<close>

theorem export_then_load_counterexample:
  "table (convert_to_csv [widget])
     = ([''Date'', ''Price'', ''Quantity'', ''Country'', ''ProductName'', ''Sales''],
        [[Txt ''2023-01-01'', FloatC 10, IntC 2, Txt ''US'', Txt ''Widget'', FloatC 20]]) \<and>
   data_app example_library (convert_to_csv [widget]) = Inl ValueError \<and>
   data_updated example_library (convert_to_csv [widget]) = Inl ValueError"
  by code_simp

section \<open>Properties of the aggregates\<close>














section \<open>The two scripts compared\<close>





end
